theory Spec2Isabelle
  imports Main
begin

section \<open>Values of the Go program\<close>

text \<open>
  The FUSE adapter of the repository (package \<open>fuse\<close>): the node model of the
  protocol file and the operation handlers of the Go file. Go strings and byte slices
  are byte sequences, here \<open>char list\<close>. Go's \<open>int\<close> and \<open>int64\<close> are 64-bit
  two's complement integers; they are \<open>int\<close> here and every arithmetic operation of
  the source is followed by the wrap-around \<open>i64\<close>.
\<close>

type_synonym bytes = "char list"

definition i64 :: "int \<Rightarrow> int" where
  "i64 x = (x + 2 ^ 63) mod 2 ^ 64 - 2 ^ 63"

subsection \<open>Errors, panics and results\<close>

text \<open>
  The error values the handlers return: \<open>fuse.EPERM\<close>, \<open>fuse.ENOENT\<close> and
  \<open>fuse.Errno(syscall.EINVAL)\<close> are errno values; \<open>fmt.Errorf\<close> makes a plain error
  that carries only its message; the data service's client returns gRPC errors, which
  carry a status code and a description.
\<close>

datatype Errno = EPERM | ENOENT | EINVAL

datatype Code = OK | Canceled | Unknown | InvalidArgument | DeadlineExceeded | NotFound
  | OtherCode nat

datatype error = Errno Errno | Errorf string | RpcError Code string

text \<open>
  \<open>grpc.Code(err)\<close> on a non-nil error: the status code of a gRPC error, and
  \<open>codes.Unknown\<close> for every other error.
\<close>

fun grpc_Code :: "error \<Rightarrow> Code" where
  "grpc_Code (RpcError c msg) = c"
| "grpc_Code (Errno e) = Unknown"
| "grpc_Code (Errorf msg) = Unknown"

text \<open>
  A handler returns a value, returns an error, or aborts with a run-time panic
  (an index or a slice bound out of range, a nil pointer dereference).
\<close>

datatype panic = IndexOutOfRange | SliceBoundsOutOfRange | NilPointerDereference

datatype 'a result = Ok 'a | Err error | Panic panic

subsection \<open>Messages\<close>

text \<open>
  \<open>pfs.Shard\<close> and \<open>google.protobuf.Timestamp\<close> are only passed along; a pointer
  to one is an \<open>option\<close>.
\<close>

typedecl Shard
typedecl Timestamp

record Repo =
  Name :: string

record Commit =
  Repo :: Repo
  ID :: string

record File =
  Commit :: Commit
  Path :: string

record Node =
  File :: File
  RepoAlias :: string
  Write :: bool
  Shard :: "Shard option"
  Modified :: "Timestamp option"

record CommitMount =
  Commit :: Commit
  FromCommit :: "Commit option"
  Alias :: string
  Shard :: "Shard option"

record Filesystem =
  Shard :: "Shard option"
  CommitMounts :: "CommitMount list"

text \<open>
  The messages of the data service that the handlers read. Of a \<open>FileInfo\<close> they read
  \<open>File.Path\<close>, the type and the size (a \<open>uint64\<close>); of a \<open>CommitInfo\<close> they read
  \<open>Commit.ID\<close>, the commit type and the time it finished; of a \<open>RepoInfo\<close> they read
  \<open>Repo.Name\<close>. The pointers inside a message that the service returns are taken to be
  set; the pointer to the message itself may be nil.
\<close>

datatype FileType = FILE_TYPE_NONE | FILE_TYPE_REGULAR | FILE_TYPE_DIR

datatype CommitType = COMMIT_TYPE_NONE | COMMIT_TYPE_READ | COMMIT_TYPE_WRITE

record FileInfo =
  File_Path :: string
  FileType :: FileType
  SizeBytes :: nat

record CommitInfo =
  Commit_ID :: string
  CommitType :: CommitType
  Finished :: "Timestamp option"

record RepoInfo =
  Repo_Name :: string

subsection \<open>The mount, nodes and handles\<close>

text \<open>
  The struct \<open>filesystem\<close>: the mount configuration, the inode table and the id of
  the mount's put-file streams. The Go map \<open>inodes\<close> is an association list in order
  of insertion; a key is only ever added when it is absent, so that \<open>len(f.inodes)\<close>
  is the length of the list. The API client is a parameter of the handlers (below) and
  the lock has no sequential content.
\<close>

record filesystem =
  Filesystem :: Filesystem
  inodes :: "(string \<times> nat) list"
  handleID :: string

text \<open>
  A \<open>directory\<close> is a \<open>Node\<close> and a pointer to the one \<open>filesystem\<close> of the mount,
  which the handlers take as an argument. A \<open>file\<close> (here \<open>file'\<close>) embeds a
  directory. Its list of handles, which only \<open>Fsync\<close> reads, is left out, and a handle
  holds its file by value.
\<close>

record file' =
  directory :: Node
  size' :: int
  local :: bool

datatype node = Directory Node | FileNode file'

record 'w handle =
  h_f :: "file'"
  h_w :: "'w option"
  written :: int

datatype DirentType = DT_File | DT_Dir

record Dirent =
  dirent_Name :: string
  dirent_Type :: DirentType

datatype OpenFlag = OpenDirectIO | OpenNonSeekable

section \<open>The data service and the standard library\<close>

text \<open>
  The data service is outside the program. Its state is a value of a type \<open>'s\<close>, and each
  method of the API client is a function from that state to a response and a new state.
  A method that returns a pointer and an error gives \<open>Inl err\<close>, or \<open>Inr\<close> of the
  pointer (\<open>None\<close> is nil); a method that returns only an error gives an \<open>error option\<close>.
  A put-file writer is a value of a type \<open>'w\<close>; its \<open>Write\<close> returns the number of bytes
  it took and an error. \<open>path.Join\<close> and \<open>filepath.Join\<close> of the standard library are
  parameters too, at the two arguments the handlers give them.
\<close>

record ('s, 'w) external =
  path_Join :: "string \<Rightarrow> string \<Rightarrow> string"
  filepath_Join :: "string \<Rightarrow> string \<Rightarrow> string"
  ListRepo :: "'s \<Rightarrow> (error + RepoInfo list) \<times> 's"
  InspectRepo :: "string \<Rightarrow> 's \<Rightarrow> (error + RepoInfo option) \<times> 's"
  ListCommit :: "string \<Rightarrow> 's \<Rightarrow> (error + CommitInfo list) \<times> 's"
  InspectCommit :: "string \<Rightarrow> string \<Rightarrow> 's \<Rightarrow> (error + CommitInfo option) \<times> 's"
  ListFile :: "string \<Rightarrow> string \<Rightarrow> string \<Rightarrow> string \<Rightarrow> Shard option \<Rightarrow> 's
    \<Rightarrow> (error + FileInfo list) \<times> 's"
  InspectFile :: "string \<Rightarrow> string \<Rightarrow> string \<Rightarrow> string \<Rightarrow> Shard option \<Rightarrow> 's
    \<Rightarrow> (error + FileInfo option) \<times> 's"
  GetFile :: "string \<Rightarrow> string \<Rightarrow> string \<Rightarrow> int \<Rightarrow> int \<Rightarrow> string \<Rightarrow> Shard option \<Rightarrow> 's
    \<Rightarrow> (error + bytes) \<times> 's"
  PutFileWriter :: "string \<Rightarrow> string \<Rightarrow> string \<Rightarrow> string \<Rightarrow> 's \<Rightarrow> (error + 'w) \<times> 's"
  MakeDirectory :: "string \<Rightarrow> string \<Rightarrow> string \<Rightarrow> 's \<Rightarrow> error option \<times> 's"
  DeleteFile :: "string \<Rightarrow> string \<Rightarrow> string \<Rightarrow> 's \<Rightarrow> error option \<times> 's"
  writer_Write :: "'w \<Rightarrow> bytes \<Rightarrow> 's \<Rightarrow> (int \<times> error option) \<times> 's"
  writer_Close :: "'w \<Rightarrow> 's \<Rightarrow> error option \<times> 's"

text \<open>
  Every call that reaches the data service is recorded, with its arguments, in a log
  that travels with the service's state: a handler that makes no call leaves both as
  they are.
\<close>

datatype 'w call =
    Call_ListRepo
  | Call_InspectRepo string
  | Call_ListCommit string
  | Call_InspectCommit string string
  | Call_ListFile string string string string "Shard option"
  | Call_InspectFile string string string string "Shard option"
  | Call_GetFile string string string int int string "Shard option"
  | Call_PutFileWriter string string string string
  | Call_MakeDirectory string string string
  | Call_DeleteFile string string string
  | Call_Write 'w bytes
  | Call_Close 'w

type_synonym ('s, 'w) world = "'s \<times> 'w call list"

definition do_call :: "('s \<Rightarrow> 'r \<times> 's) \<Rightarrow> 'w call \<Rightarrow> ('s, 'w) world \<Rightarrow> 'r \<times> ('s, 'w) world" where
  "do_call m c wd = (case m (fst wd) of (r, s) \<Rightarrow> (r, (s, snd wd @ [c])))"

text \<open>The bytes that the log shows as handed to a writer, in order.\<close>

fun forwarded :: "'w \<Rightarrow> 'w call list \<Rightarrow> bytes" where
  "forwarded w [] = []"
| "forwarded w (Call_Write w' bs # cs) = (if w' = w then bs @ forwarded w cs else forwarded w cs)"
| "forwarded w (c # cs) = forwarded w cs"

text \<open>
  \<open>strings.TrimPrefix(s, prefix)\<close>: \<open>s\<close> without the leading \<open>prefix\<close>, and \<open>s\<close>
  itself when it does not start with \<open>prefix\<close>.
\<close>

definition strings_HasPrefix :: "string \<Rightarrow> string \<Rightarrow> bool" where
  "strings_HasPrefix s pre = (length pre \<le> length s \<and> take (length pre) s = pre)"

definition strings_TrimPrefix :: "string \<Rightarrow> string \<Rightarrow> string" where
  "strings_TrimPrefix s pre = (if strings_HasPrefix s pre then drop (length pre) s else s)"

section \<open>The mount configuration and the inode table\<close>

abbreviation Repo_Name_of :: "Node \<Rightarrow> string" where
  "Repo_Name_of d \<equiv> Name (Commit.Repo (File.Commit (Node.File d)))"

abbreviation Commit_ID_of :: "Node \<Rightarrow> string" where
  "Commit_ID_of d \<equiv> ID (File.Commit (Node.File d))"

abbreviation Path_of :: "Node \<Rightarrow> string" where
  "Path_of d \<equiv> Path (Node.File d)"

text \<open>\<open>newFilesystem\<close>; the fresh uuid of \<open>handleID\<close> is an argument.\<close>

definition newFilesystem :: "Shard option \<Rightarrow> CommitMount list \<Rightarrow> string \<Rightarrow> filesystem" where
  "newFilesystem shard commitMounts uuid =
     \<lparr>Filesystem = \<lparr>Filesystem.Shard = shard, CommitMounts = commitMounts\<rparr>,
      inodes = [], handleID = uuid\<rparr>"

definition Root :: "Node" where
  "Root = \<lparr>Node.File = \<lparr>File.Commit = \<lparr>Commit.Repo = \<lparr>Name = []\<rparr>, ID = []\<rparr>, Path = []\<rparr>,
            RepoAlias = [], Write = False, Node.Shard = None, Modified = None\<rparr>"

text \<open>\<open>key\<close>: \<open>fmt.Sprintf("%s/%s/%s", repo name, commit id, path)\<close>.\<close>

definition key :: "File \<Rightarrow> string" where
  "key file = Name (Commit.Repo (File.Commit file)) @ ''/'' @ ID (File.Commit file) @ ''/'' @ Path file"

text \<open>
  \<open>filesystem.inode\<close>: the inode of the key if the table has it, looked up once under
  the read lock and once more under the write lock; otherwise the number of entries,
  which is stored under the key. The new inode is \<open>uint64(len(f.inodes))\<close>: a length
  is not negative and fits, so inodes are natural numbers.
\<close>

definition inode :: "filesystem \<Rightarrow> File \<Rightarrow> nat \<times> filesystem" where
  "inode f file =
     (case map_of (inodes f) (key file) of
        Some i \<Rightarrow> (i, f)
      | None \<Rightarrow>
          (case map_of (inodes f) (key file) of
             Some i \<Rightarrow> (i, f)
           | None \<Rightarrow>
               (let newInode = length (inodes f)
                in (newInode, f\<lparr>inodes := inodes f @ [(key file, newInode)]\<rparr>))))"

text \<open>
  Modelled from the spec: \<open>client.NewCommit\<close>, which is not among the sources; the spec
  has the ad-hoc mount of an empty mount list carry the given repo name and an unpinned
  (empty) commit id.
\<close>

definition NewCommit :: "string \<Rightarrow> string \<Rightarrow> Commit" where
  "NewCommit repoName commitID = \<lparr>Commit.Repo = \<lparr>Name = repoName\<rparr>, ID = commitID\<rparr>"

text \<open>
  \<open>filesystem.getCommitMount\<close>: a pointer to a mount or nil. Each of the two loops
  returns the first mount that matches.
\<close>

definition getCommitMount :: "filesystem \<Rightarrow> string \<Rightarrow> CommitMount option" where
  "getCommitMount f nameOrAlias =
     (if length (CommitMounts (Filesystem f)) = 0
      then Some \<lparr>CommitMount.Commit = NewCommit nameOrAlias [], FromCommit = None, Alias = [],
                 CommitMount.Shard = Filesystem.Shard (Filesystem f)\<rparr>
      else
        (case find (\<lambda>commitMount. Alias commitMount = nameOrAlias) (CommitMounts (Filesystem f)) of
           Some commitMount \<Rightarrow> Some commitMount
         | None \<Rightarrow>
             (case find (\<lambda>commitMount. Name (Commit.Repo (CommitMount.Commit commitMount)) = nameOrAlias)
                     (CommitMounts (Filesystem f)) of
                Some commitMount \<Rightarrow> Some commitMount
              | None \<Rightarrow> None)))"

definition getFromCommitID :: "filesystem \<Rightarrow> string \<Rightarrow> string" where
  "getFromCommitID f nameOrAlias =
     (case getCommitMount f nameOrAlias of
        None \<Rightarrow> []
      | Some commitMount \<Rightarrow>
          (case FromCommit commitMount of None \<Rightarrow> [] | Some fromCommit \<Rightarrow> ID fromCommit))"

definition copy :: "Node \<Rightarrow> Node" where
  "copy d =
     \<lparr>Node.File = \<lparr>File.Commit = \<lparr>Commit.Repo = \<lparr>Name = Repo_Name_of d\<rparr>, ID = Commit_ID_of d\<rparr>,
                   Path = Path_of d\<rparr>,
      RepoAlias = RepoAlias d, Write = Write d, Node.Shard = Node.Shard d, Modified = None\<rparr>"

definition getRepoOrAliasName :: "Node \<Rightarrow> string" where
  "getRepoOrAliasName d = (if RepoAlias d \<noteq> [] then RepoAlias d else Repo_Name_of d)"

text \<open>The assignments to \<open>File.Commit.Repo.Name\<close>, \<open>File.Commit.ID\<close> and \<open>File.Path\<close> of a node.\<close>

definition set_Repo_Name :: "Node \<Rightarrow> string \<Rightarrow> Node" where
  "set_Repo_Name d v =
     d\<lparr>Node.File := (Node.File d)\<lparr>File.Commit :=
          (File.Commit (Node.File d))\<lparr>Commit.Repo := \<lparr>Name = v\<rparr>\<rparr>\<rparr>\<rparr>"

definition set_Commit_ID :: "Node \<Rightarrow> string \<Rightarrow> Node" where
  "set_Commit_ID d v =
     d\<lparr>Node.File := (Node.File d)\<lparr>File.Commit := (File.Commit (Node.File d))\<lparr>ID := v\<rparr>\<rparr>\<rparr>"

definition set_Path :: "Node \<Rightarrow> string \<Rightarrow> Node" where
  "set_Path d v = d\<lparr>Node.File := (Node.File d)\<lparr>Path := v\<rparr>\<rparr>"

section \<open>Lookup\<close>

text \<open>
  \<open>directory.lookUpRepo\<close>. The commit of a configured mount is taken to be set. A nil
  \<open>commitInfo\<close> with a nil error is dereferenced.
\<close>

definition lookUpRepo ::
  "('s, 'w) external \<Rightarrow> filesystem \<Rightarrow> Node \<Rightarrow> string \<Rightarrow> ('s, 'w) world
    \<Rightarrow> node result \<times> ('s, 'w) world" where
  "lookUpRepo x fs d name wd =
     (case getCommitMount fs name of
        None \<Rightarrow> (Err (Errno EPERM), wd)
      | Some commitMount \<Rightarrow>
          (let repoName = Name (Commit.Repo (CommitMount.Commit commitMount));
               commitID = ID (CommitMount.Commit commitMount)
           in case do_call (InspectRepo x repoName) (Call_InspectRepo repoName) wd of
                (Inl err, wd1) \<Rightarrow> (Err err, wd1)
              | (Inr None, wd1) \<Rightarrow> (Err (Errno ENOENT), wd1)
              | (Inr (Some repoInfo), wd1) \<Rightarrow>
                  (let result = (set_Commit_ID (set_Repo_Name (copy d) repoName) commitID)
                         \<lparr>RepoAlias := Alias commitMount,
                          Node.Shard := CommitMount.Shard commitMount\<rparr>
                   in case do_call (InspectCommit x repoName commitID)
                             (Call_InspectCommit repoName commitID) wd1 of
                        (Inl err, wd2) \<Rightarrow> (Err err, wd2)
                      | (Inr None, wd2) \<Rightarrow> (Panic NilPointerDereference, wd2)
                      | (Inr (Some commitInfo), wd2) \<Rightarrow>
                          (Ok (Directory (result
                                 \<lparr>Write := (CommitType commitInfo \<noteq> COMMIT_TYPE_READ),
                                  Modified := Finished commitInfo\<rparr>)), wd2))))"

text \<open>\<open>directory.lookUpCommit\<close>.\<close>

definition lookUpCommit ::
  "('s, 'w) external \<Rightarrow> filesystem \<Rightarrow> Node \<Rightarrow> string \<Rightarrow> ('s, 'w) world
    \<Rightarrow> node result \<times> ('s, 'w) world" where
  "lookUpCommit x fs d name wd =
     (case do_call (InspectCommit x (Repo_Name_of d) name)
             (Call_InspectCommit (Repo_Name_of d) name) wd of
        (Inl err, wd1) \<Rightarrow> (Err err, wd1)
      | (Inr None, wd1) \<Rightarrow> (Err (Errno ENOENT), wd1)
      | (Inr (Some commitInfo), wd1) \<Rightarrow>
          (Ok (Directory ((set_Commit_ID (copy d) name)
                 \<lparr>Write := (CommitType commitInfo \<noteq> COMMIT_TYPE_READ),
                  Modified := Finished commitInfo\<rparr>)), wd1))"

text \<open>
  \<open>directory.lookUpFile\<close>. In a writable directory the file info is made up, without a
  call; otherwise it is inspected, and every error of the inspection becomes
  \<open>ENOENT\<close>. A nil \<open>fileInfo\<close> with a nil error is dereferenced.
\<close>

definition lookUpFile ::
  "('s, 'w) external \<Rightarrow> filesystem \<Rightarrow> Node \<Rightarrow> string \<Rightarrow> ('s, 'w) world
    \<Rightarrow> node result \<times> ('s, 'w) world" where
  "lookUpFile x fs d name wd =
     (case (if Write d
            then (Inr (Some \<lparr>File_Path = path_Join x (Path_of d) name,
                              FileType = FILE_TYPE_REGULAR, SizeBytes = 0\<rparr>), wd)
            else (case do_call (InspectFile x (Repo_Name_of d) (Commit_ID_of d)
                                  (path_Join x (Path_of d) name)
                                  (getFromCommitID fs (getRepoOrAliasName d)) (Node.Shard d))
                         (Call_InspectFile (Repo_Name_of d) (Commit_ID_of d)
                            (path_Join x (Path_of d) name)
                            (getFromCommitID fs (getRepoOrAliasName d)) (Node.Shard d)) wd of
                    (Inl err, wd1) \<Rightarrow> (Inl (Errno ENOENT), wd1)
                  | (Inr fileInfo, wd1) \<Rightarrow> (Inr fileInfo, wd1))) of
        (Inl err, wd1) \<Rightarrow> (Err err, wd1)
      | (Inr None, wd1) \<Rightarrow> (Panic NilPointerDereference, wd1)
      | (Inr (Some fileInfo), wd1) \<Rightarrow>
          (let directory' = set_Path (copy d) (File_Path fileInfo)
           in case FileType fileInfo of
                FILE_TYPE_REGULAR \<Rightarrow>
                  (Ok (FileNode \<lparr>directory = directory',
                                 size' = i64 (int (SizeBytes fileInfo)), local = False\<rparr>), wd1)
              | FILE_TYPE_DIR \<Rightarrow> (Ok (Directory directory'), wd1)
              | FILE_TYPE_NONE \<Rightarrow> (Err (Errorf ''Unrecognized FileType.''), wd1)))"

text \<open>\<open>directory.Lookup\<close>: the root, a repo directory, or a directory of a commit.\<close>

definition Lookup ::
  "('s, 'w) external \<Rightarrow> filesystem \<Rightarrow> Node \<Rightarrow> string \<Rightarrow> ('s, 'w) world
    \<Rightarrow> node result \<times> ('s, 'w) world" where
  "Lookup x fs d name wd =
     (if Repo_Name_of d = [] then lookUpRepo x fs d name wd
      else if Commit_ID_of d = [] then lookUpCommit x fs d name wd
      else lookUpFile x fs d name wd)"

section \<open>Reading a directory\<close>

definition readRepos ::
  "('s, 'w) external \<Rightarrow> filesystem \<Rightarrow> Node \<Rightarrow> ('s, 'w) world
    \<Rightarrow> Dirent list result \<times> ('s, 'w) world" where
  "readRepos x fs d wd =
     (if length (CommitMounts (Filesystem fs)) = 0
      then (case do_call (ListRepo x) Call_ListRepo wd of
              (Inl err, wd1) \<Rightarrow> (Err err, wd1)
            | (Inr repoInfos, wd1) \<Rightarrow>
                (Ok (map (\<lambda>repoInfo. \<lparr>dirent_Name = Repo_Name repoInfo, dirent_Type = DT_Dir\<rparr>)
                       repoInfos), wd1))
      else (Ok (map (\<lambda>mount.
                       \<lparr>dirent_Name = (if Alias mount \<noteq> [] then Alias mount
                                        else Name (Commit.Repo (CommitMount.Commit mount))),
                        dirent_Type = DT_Dir\<rparr>)
                  (CommitMounts (Filesystem fs))), wd))"

definition readCommits ::
  "('s, 'w) external \<Rightarrow> filesystem \<Rightarrow> Node \<Rightarrow> ('s, 'w) world
    \<Rightarrow> Dirent list result \<times> ('s, 'w) world" where
  "readCommits x fs d wd =
     (case do_call (ListCommit x (Repo_Name_of d)) (Call_ListCommit (Repo_Name_of d)) wd of
        (Inl err, wd1) \<Rightarrow> (Err err, wd1)
      | (Inr commitInfos, wd1) \<Rightarrow>
          (Ok (map (\<lambda>commitInfo. \<lparr>dirent_Name = Commit_ID commitInfo, dirent_Type = DT_Dir\<rparr>)
                 commitInfos), wd1))"

text \<open>
  The loop of \<open>directory.readFiles\<close> over the file infos, with the entries collected so
  far. \<open>shortPath[0]\<close> is read with no check of the length: on the empty string the
  index is out of range.
\<close>

fun readFiles_loop :: "string \<Rightarrow> FileInfo list \<Rightarrow> Dirent list \<Rightarrow> Dirent list result" where
  "readFiles_loop dirPath [] result = Ok result"
| "readFiles_loop dirPath (fileInfo # fileInfos) result =
     (case strings_TrimPrefix (File_Path fileInfo) dirPath of
        [] \<Rightarrow> Panic IndexOutOfRange
      | c # cs \<Rightarrow>
          (let shortPath = (if c = CHR ''/'' then cs else c # cs)
           in case FileType fileInfo of
                FILE_TYPE_REGULAR \<Rightarrow>
                  readFiles_loop dirPath fileInfos
                    (result @ [\<lparr>dirent_Name = shortPath, dirent_Type = DT_File\<rparr>])
              | FILE_TYPE_DIR \<Rightarrow>
                  readFiles_loop dirPath fileInfos
                    (result @ [\<lparr>dirent_Name = shortPath, dirent_Type = DT_Dir\<rparr>])
              | FILE_TYPE_NONE \<Rightarrow> readFiles_loop dirPath fileInfos result))"

definition readFiles ::
  "('s, 'w) external \<Rightarrow> filesystem \<Rightarrow> Node \<Rightarrow> ('s, 'w) world
    \<Rightarrow> Dirent list result \<times> ('s, 'w) world" where
  "readFiles x fs d wd =
     (case do_call (ListFile x (Repo_Name_of d) (Commit_ID_of d) (Path_of d)
                      (getFromCommitID fs (getRepoOrAliasName d)) (Node.Shard d))
             (Call_ListFile (Repo_Name_of d) (Commit_ID_of d) (Path_of d)
                (getFromCommitID fs (getRepoOrAliasName d)) (Node.Shard d)) wd of
        (Inl err, wd1) \<Rightarrow> (Err err, wd1)
      | (Inr fileInfos, wd1) \<Rightarrow> (readFiles_loop (Path_of d) fileInfos [], wd1))"

text \<open>
  \<open>directory.ReadDirAll\<close>. On a repo directory whose mount pins a commit the handler
  assigns the commit id and the shard of the mount to the node itself, so the node is
  returned too.
\<close>

definition ReadDirAll ::
  "('s, 'w) external \<Rightarrow> filesystem \<Rightarrow> Node \<Rightarrow> ('s, 'w) world
    \<Rightarrow> Dirent list result \<times> Node \<times> ('s, 'w) world" where
  "ReadDirAll x fs d wd =
     (if Repo_Name_of d = [] then (case readRepos x fs d wd of (r, wd1) \<Rightarrow> (r, d, wd1))
      else if Commit_ID_of d = [] then
        (case getCommitMount fs (getRepoOrAliasName d) of
           None \<Rightarrow> (case readCommits x fs d wd of (r, wd1) \<Rightarrow> (r, d, wd1))
         | Some commitMount \<Rightarrow>
             (if ID (CommitMount.Commit commitMount) \<noteq> []
              then (let d' = (set_Commit_ID d (ID (CommitMount.Commit commitMount)))
                               \<lparr>Node.Shard := CommitMount.Shard commitMount\<rparr>
                    in case readFiles x fs d' wd of (r, wd1) \<Rightarrow> (r, d', wd1))
              else (case readCommits x fs d wd of (r, wd1) \<Rightarrow> (r, d, wd1))))
      else (case readFiles x fs d wd of (r, wd1) \<Rightarrow> (r, d, wd1)))"

section \<open>Create, Mkdir, Remove, Open\<close>

definition newHandle :: "file' \<Rightarrow> 'w handle" where
  "newHandle f = \<lparr>h_f = f, h_w = None, written = 0\<rparr>"




definition file_Open :: "file' \<Rightarrow> OpenFlag set \<Rightarrow> ('w handle \<times> OpenFlag set) result" where
  "file_Open f flags = Ok (newHandle f, flags \<union> {OpenDirectIO, OpenNonSeekable})"

section \<open>Handles\<close>

text \<open>
  \<open>handle.Read\<close> at \<open>request.Offset\<close> and \<open>request.Size\<close>: the bytes of the buffer, or
  the error of \<open>GetFile\<close>, where a gRPC error of code \<open>NotFound\<close> becomes \<open>EINVAL\<close>.
\<close>

definition handle_Read ::
  "('s, 'w) external \<Rightarrow> filesystem \<Rightarrow> 'w handle \<Rightarrow> int \<Rightarrow> int \<Rightarrow> ('s, 'w) world
    \<Rightarrow> bytes result \<times> ('s, 'w) world" where
  "handle_Read x fs h offset size'' wd =
     (let n = directory (h_f h)
      in case do_call (GetFile x (Repo_Name_of n) (Commit_ID_of n) (Path_of n) offset size''
                         (getFromCommitID fs (getRepoOrAliasName n)) (Node.Shard n))
                (Call_GetFile (Repo_Name_of n) (Commit_ID_of n) (Path_of n) offset size''
                   (getFromCommitID fs (getRepoOrAliasName n)) (Node.Shard n)) wd of
           (Inl err, wd1) \<Rightarrow>
             (if grpc_Code err = NotFound then (Err (Errno EINVAL), wd1) else (Err err, wd1))
         | (Inr buffer, wd1) \<Rightarrow> (Ok buffer, wd1))"

text \<open>
  \<open>handle.Write\<close> at \<open>request.Offset\<close> and \<open>request.Data\<close>: \<open>response.Size\<close>, the
  handle after the call and the data service after it. The writer is opened first when
  the handle has none. The slice \<open>request.Data[repeated:]\<close> is taken with no check that
  \<open>repeated\<close> is within the length: beyond it the slice bounds are out of range.
\<close>

definition handle_Write ::
  "('s, 'w) external \<Rightarrow> filesystem \<Rightarrow> 'w handle \<Rightarrow> int \<Rightarrow> bytes \<Rightarrow> ('s, 'w) world
    \<Rightarrow> int result \<times> 'w handle \<times> ('s, 'w) world" where
  "handle_Write x fs h offset data wd =
     (let n = directory (h_f h)
      in case (case h_w h of
                 None \<Rightarrow>
                   (case do_call (PutFileWriter x (Repo_Name_of n) (Commit_ID_of n) (Path_of n)
                                    (handleID fs))
                           (Call_PutFileWriter (Repo_Name_of n) (Commit_ID_of n) (Path_of n)
                              (handleID fs)) wd of
                      (Inl err, wd1) \<Rightarrow> (Inl err, wd1)
                    | (Inr w, wd1) \<Rightarrow> (Inr (w, h\<lparr>h_w := Some w\<rparr>), wd1))
               | Some w \<Rightarrow> (Inr (w, h), wd)) of
           (Inl err, wd1) \<Rightarrow> (Err err, h, wd1)
         | (Inr (w, h1), wd1) \<Rightarrow>
             (let repeated = i64 (written h1 - offset)
              in if repeated < 0
                 then (Err (Errorf
                         ''gap in bytes written, (OpenNonSeekable should make this impossible)''),
                       h1, wd1)
                 else if int (length data) < repeated
                 then (Panic SliceBoundsOutOfRange, h1, wd1)
                 else
                   (case do_call (writer_Write x w (drop (nat repeated) data))
                           (Call_Write w (drop (nat repeated) data)) wd1 of
                      ((written', Some err), wd2) \<Rightarrow> (Err err, h1, wd2)
                    | ((written', None), wd2) \<Rightarrow>
                        (Ok (i64 (written' + repeated)),
                         h1\<lparr>written := i64 (written h1 + written'),
                            h_f := (h_f h1)\<lparr>size' :=
                              (if size' (h_f h1) < i64 (offset + written')
                               then i64 (offset + written') else size' (h_f h1))\<rparr>\<rparr>,
                         wd2))))"

text \<open>\<open>handle.Flush\<close> closes the writer, if there is one, and clears it; \<open>Release\<close> does nothing.\<close>

definition handle_Flush ::
  "('s, 'w) external \<Rightarrow> 'w handle \<Rightarrow> ('s, 'w) world \<Rightarrow> unit result \<times> 'w handle \<times> ('s, 'w) world" where
  "handle_Flush x h wd =
     (case h_w h of
        None \<Rightarrow> (Ok (), h, wd)
      | Some w \<Rightarrow>
          (case do_call (writer_Close x w) (Call_Close w) wd of
             (Some err, wd1) \<Rightarrow> (Err err, h\<lparr>h_w := None\<rparr>, wd1)
           | (None, wd1) \<Rightarrow> (Ok (), h\<lparr>h_w := None\<rparr>, wd1)))"

definition handle_Release :: "'w handle \<Rightarrow> unit result" where
  "handle_Release h = Ok ()"

section \<open>Sequences of inode queries\<close>

text \<open>
  The table after the inodes of a list of files have been asked for, one after the other,
  and the well-formedness of a table: its values are \<open>0, 1, \<dots>\<close> in the order of insertion
  and no key occurs twice.
\<close>

fun inode_seq :: "filesystem \<Rightarrow> File list \<Rightarrow> filesystem" where
  "inode_seq f [] = f"
| "inode_seq f (file # files) = inode_seq (snd (inode f file)) files"

definition inodes_wf :: "(string \<times> nat) list \<Rightarrow> bool" where
  "inodes_wf tbl = (map snd tbl = [0..<length tbl] \<and> distinct (map fst tbl))"

definition file_of :: "string \<Rightarrow> string \<Rightarrow> string \<Rightarrow> File" where
  "file_of repo commit p = \<lparr>File.Commit = \<lparr>Commit.Repo = \<lparr>Name = repo\<rparr>, ID = commit\<rparr>, Path = p\<rparr>"

section \<open>A small data service and mounts for the examples\<close>

text \<open>
  A data service with one repo \<open>R\<close>, a finished commit \<open>c1\<close> and an open commit \<open>c9\<close>.
  Its state is the bytes its writer has received. Listing the directory \<open>sub\<close> returns
  an entry for \<open>sub\<close> itself. Joining two path elements puts a slash between them.
\<close>

definition join2 :: "string \<Rightarrow> string \<Rightarrow> string" where
  "join2 a b = (if a = [] then b else a @ ''/'' @ b)"

definition info_c1 :: CommitInfo where
  "info_c1 = \<lparr>Commit_ID = ''c1'', CommitType = COMMIT_TYPE_READ, Finished = None\<rparr>"

definition info_c9 :: CommitInfo where
  "info_c9 = \<lparr>Commit_ID = ''c9'', CommitType = COMMIT_TYPE_WRITE, Finished = None\<rparr>"

definition service :: "(bytes, nat) external" where
  "service =
     \<lparr>path_Join = join2,
      filepath_Join = join2,
      ListRepo = (\<lambda>s. (Inr [\<lparr>Repo_Name = ''R''\<rparr>], s)),
      InspectRepo = (\<lambda>repo s.
        (if repo = ''R'' then Inr (Some \<lparr>Repo_Name = ''R''\<rparr>)
         else Inl (RpcError NotFound ''repo not found''), s)),
      ListCommit = (\<lambda>repo s. (Inr [info_c1, info_c9], s)),
      InspectCommit = (\<lambda>repo c s.
        (if c = ''c1'' then Inr (Some info_c1)
         else if c = ''c9'' then Inr (Some info_c9)
         else Inl (RpcError NotFound ''commit not found''), s)),
      ListFile = (\<lambda>repo c p fromCommit shard s.
        (if p = ''sub''
         then Inr [\<lparr>File_Path = ''sub'', FileType = FILE_TYPE_DIR, SizeBytes = 0\<rparr>]
         else Inr [\<lparr>File_Path = ''/a.txt'', FileType = FILE_TYPE_REGULAR, SizeBytes = 3\<rparr>,
                   \<lparr>File_Path = ''/sub'', FileType = FILE_TYPE_DIR, SizeBytes = 0\<rparr>], s)),
      InspectFile = (\<lambda>repo c p fromCommit shard s.
        (if p = ''a.txt''
         then Inr (Some \<lparr>File_Path = ''a.txt'', FileType = FILE_TYPE_REGULAR, SizeBytes = 3\<rparr>)
         else Inl (RpcError NotFound ''file not found''), s)),
      GetFile = (\<lambda>repo c p off sz fromCommit shard s.
        (if p = ''a.txt'' then Inr (take (nat sz) (drop (nat off) ''abc''))
         else if p = ''broken'' then Inl (RpcError Unknown ''storage failure'')
         else Inl (RpcError NotFound ''file not found''), s)),
      PutFileWriter = (\<lambda>repo c p hid s. (Inr 0, s)),
      MakeDirectory = (\<lambda>repo c p s. (None, s)),
      DeleteFile = (\<lambda>repo c p s. (None, s)),
      writer_Write = (\<lambda>w bs s. ((int (length bs), None), s @ bs)),
      writer_Close = (\<lambda>w s. (None, s))\<rparr>"

definition node_at :: "string \<Rightarrow> string \<Rightarrow> string \<Rightarrow> bool \<Rightarrow> Node" where
  "node_at repo commit p wr =
     \<lparr>Node.File = \<lparr>File.Commit = \<lparr>Commit.Repo = \<lparr>Name = repo\<rparr>, ID = commit\<rparr>, Path = p\<rparr>,
      RepoAlias = [], Write = wr, Node.Shard = None, Modified = None\<rparr>"

definition file_at :: "string \<Rightarrow> string \<Rightarrow> string \<Rightarrow> bool \<Rightarrow> file'" where
  "file_at repo commit p wr = \<lparr>directory = node_at repo commit p wr, size' = 0, local = False\<rparr>"

definition fs_none :: filesystem where
  "fs_none = newFilesystem None [] ''h1''"

definition mount_out :: CommitMount where
  "mount_out = \<lparr>CommitMount.Commit = NewCommit ''out'' ''c3'', FromCommit = None, Alias = [],
                 CommitMount.Shard = None\<rparr>"

definition mount_R :: CommitMount where
  "mount_R = \<lparr>CommitMount.Commit = NewCommit ''R'' ''c2'', FromCommit = None, Alias = ''out'',
               CommitMount.Shard = None\<rparr>"

definition fs_two :: filesystem where
  "fs_two = newFilesystem None [mount_out, mount_R] ''h1''"

definition world0 :: "(bytes, nat) world" where
  "world0 = ([], [])"

section \<open>Resolving a name to a mount\<close>

lemma find_first:
  "xs = pre @ m # post \<Longrightarrow> P m \<Longrightarrow> \<forall>c\<in>set pre. \<not> P c \<Longrightarrow> find P xs = Some m"
  by (induction pre arbitrary: xs) auto

lemma find_none: "\<forall>c\<in>set xs. \<not> P c \<Longrightarrow> find P xs = None"
  by (simp add: find_None_iff)

text \<open>
  C8. When some mount has the alias \<open>s\<close>, \<open>getCommitMount\<close> returns the first mount
  with that alias, whatever the repo names of the mounts before it. The repo names are
  scanned only when no alias is \<open>s\<close>: then the first mount whose repo is named \<open>s\<close> is
  returned, and nil when a non-empty mount list has none.
\<close>

theorem getCommitMount_alias_first:
  "(CommitMounts (Filesystem f) = pre @ m # post \<longrightarrow> Alias m = s \<longrightarrow>
      (\<forall>c\<in>set pre. Alias c \<noteq> s) \<longrightarrow> getCommitMount f s = Some m)
   \<and> (CommitMounts (Filesystem f) = pre @ m # post \<longrightarrow>
      (\<forall>c\<in>set (CommitMounts (Filesystem f)). Alias c \<noteq> s) \<longrightarrow>
      Name (Commit.Repo (CommitMount.Commit m)) = s \<longrightarrow>
      (\<forall>c\<in>set pre. Name (Commit.Repo (CommitMount.Commit c)) \<noteq> s) \<longrightarrow>
      getCommitMount f s = Some m)
   \<and> (CommitMounts (Filesystem f) \<noteq> [] \<longrightarrow>
      (\<forall>c\<in>set (CommitMounts (Filesystem f)).
          Alias c \<noteq> s \<and> Name (Commit.Repo (CommitMount.Commit c)) \<noteq> s) \<longrightarrow>
      getCommitMount f s = None)"
proof (intro conjI impI)
  assume a: "CommitMounts (Filesystem f) = pre @ m # post" "Alias m = s"
    "\<forall>c\<in>set pre. Alias c \<noteq> s"
  have "find (\<lambda>c. Alias c = s) (CommitMounts (Filesystem f)) = Some m"
    using a by (intro find_first[where pre = pre and post = post]) auto
  then show "getCommitMount f s = Some m"
    using a(1) by (simp add: getCommitMount_def)
next
  assume a: "CommitMounts (Filesystem f) = pre @ m # post"
    "\<forall>c\<in>set (CommitMounts (Filesystem f)). Alias c \<noteq> s"
    "Name (Commit.Repo (CommitMount.Commit m)) = s"
    "\<forall>c\<in>set pre. Name (Commit.Repo (CommitMount.Commit c)) \<noteq> s"
  have n: "find (\<lambda>c. Alias c = s) (CommitMounts (Filesystem f)) = None"
    using a(2) by (intro find_none) auto
  have "find (\<lambda>c. Name (Commit.Repo (CommitMount.Commit c)) = s) (CommitMounts (Filesystem f)) = Some m"
    using a by (intro find_first[where pre = pre and post = post]) auto
  then show "getCommitMount f s = Some m"
    using a(1) n by (simp add: getCommitMount_def)
next
  assume a: "CommitMounts (Filesystem f) \<noteq> []"
    "\<forall>c\<in>set (CommitMounts (Filesystem f)).
          Alias c \<noteq> s \<and> Name (Commit.Repo (CommitMount.Commit c)) \<noteq> s"
  have n: "find (\<lambda>c. Alias c = s) (CommitMounts (Filesystem f)) = None"
    using a(2) by (intro find_none) auto
  have n2: "find (\<lambda>c. Name (Commit.Repo (CommitMount.Commit c)) = s) (CommitMounts (Filesystem f)) = None"
    using a(2) by (intro find_none) auto
  show "getCommitMount f s = None"
    using a(1) n n2 by (simp add: getCommitMount_def)
qed

text \<open>
  Two mounts, the first of the repo \<open>out\<close> with no alias, the second of the repo \<open>R\<close>
  with the alias \<open>out\<close>: the name \<open>out\<close> is the second mount, and so is \<open>R\<close>.
\<close>

theorem getCommitMount_alias_first_witness:
  "CommitMounts (Filesystem fs_two) = [mount_out] @ mount_R # []
   \<and> Alias mount_R = ''out''
   \<and> Alias mount_out \<noteq> ''out''
   \<and> Name (Commit.Repo (CommitMount.Commit mount_out)) = ''out''
   \<and> getCommitMount fs_two ''out'' = Some mount_R
   \<and> Alias mount_out \<noteq> ''R'' \<and> Alias mount_R \<noteq> ''R''
   \<and> Name (Commit.Repo (CommitMount.Commit mount_R)) = ''R''
   \<and> Name (Commit.Repo (CommitMount.Commit mount_out)) \<noteq> ''R''
   \<and> getCommitMount fs_two ''R'' = Some mount_R
   \<and> getCommitMount fs_two ''Q'' = None"
  using getCommitMount_alias_first [of fs_two "[mount_out]" mount_R "[]" "''out''"]
    getCommitMount_alias_first [of fs_two "[mount_out]" mount_R "[]" "''R''"]
    getCommitMount_alias_first [of fs_two "[mount_out]" mount_R "[]" "''Q''"]
  by (simp add: fs_two_def newFilesystem_def mount_out_def mount_R_def NewCommit_def)

section \<open>Reading from a handle\<close>

text \<open>
  C7. When \<open>GetFile\<close> returns an error, \<open>Read\<close> returns \<open>EINVAL\<close> if the error is a gRPC
  error of code \<open>NotFound\<close> (never \<open>ENOENT\<close>), and the error itself otherwise.
\<close>

theorem handle_Read_error:
  assumes "GetFile x (Repo_Name_of (directory (h_f h))) (Commit_ID_of (directory (h_f h)))
             (Path_of (directory (h_f h))) offset sz
             (getFromCommitID fs (getRepoOrAliasName (directory (h_f h))))
             (Node.Shard (directory (h_f h))) (fst wd) = (Inl err, s)"
  shows "handle_Read x fs h offset sz wd =
           ((if grpc_Code err = NotFound then Err (Errno EINVAL) else Err err),
            (s, snd wd @ [Call_GetFile (Repo_Name_of (directory (h_f h)))
                            (Commit_ID_of (directory (h_f h))) (Path_of (directory (h_f h)))
                            offset sz
                            (getFromCommitID fs (getRepoOrAliasName (directory (h_f h))))
                            (Node.Shard (directory (h_f h)))]))"
  using assms by (simp add: handle_Read_def do_call_def Let_def)

theorem handle_Read_error_witness:
  "GetFile service ''R'' ''c9'' ''log'' 0 10 [] None [] = (Inl (RpcError NotFound ''file not found''), [])
   \<and> fst (handle_Read service fs_none (newHandle (file_at ''R'' ''c9'' ''log'' True)) 0 10 world0)
       = Err (Errno EINVAL)
   \<and> GetFile service ''R'' ''c1'' ''broken'' 0 10 [] None [] = (Inl (RpcError Unknown ''storage failure''), [])
   \<and> fst (handle_Read service fs_none (newHandle (file_at ''R'' ''c1'' ''broken'' False)) 0 10 world0)
       = Err (RpcError Unknown ''storage failure'')"
  using handle_Read_error [of service "newHandle (file_at ''R'' ''c9'' ''log'' True)" 0 10 fs_none world0
          "RpcError NotFound ''file not found''" "[]"]
    handle_Read_error [of service "newHandle (file_at ''R'' ''c1'' ''broken'' False)" 0 10 fs_none world0
          "RpcError Unknown ''storage failure''" "[]"]
  by (simp add: service_def newHandle_def file_at_def node_at_def world0_def fs_none_def
      newFilesystem_def getFromCommitID_def getCommitMount_def getRepoOrAliasName_def NewCommit_def)


section \<open>Lookup in a writable directory\<close>

text \<open>
  C3, as the spec has it, fails: in the writable directory of the open commit \<open>c9\<close> the
  lookup of \<open>x\<close> makes no call and returns a regular file of size 0, but the file has
  \<open>local = false\<close>, not \<open>local = true\<close>.
\<close>

theorem Lookup_writable_counterexample:
  "Repo_Name_of (node_at ''R'' ''c9'' [] True) \<noteq> []
   \<and> Commit_ID_of (node_at ''R'' ''c9'' [] True) \<noteq> []
   \<and> Write (node_at ''R'' ''c9'' [] True)
   \<and> Lookup service fs_none (node_at ''R'' ''c9'' [] True) ''x'' world0
       = (Ok (FileNode \<lparr>directory = node_at ''R'' ''c9'' ''x'' True, size' = 0, local = False\<rparr>),
          world0)
   \<and> FileNode \<lparr>directory = node_at ''R'' ''c9'' ''x'' True, size' = 0, local = False\<rparr>
       \<noteq> FileNode \<lparr>directory = node_at ''R'' ''c9'' ''x'' True, size' = 0, local = True\<rparr>"
  by (simp add: Lookup_def lookUpFile_def node_at_def service_def join2_def copy_def
      set_Path_def i64_def)

text \<open>
  C3, amended. In a writable directory with a repo name and a commit id, \<open>Lookup\<close>
  returns a file node (a regular file) at the joined path, of size 0 and with
  \<open>local = false\<close>; the data service and the log of calls are as they were.
\<close>

theorem Lookup_writable:
  assumes "Repo_Name_of d \<noteq> []" and "Commit_ID_of d \<noteq> []" and "Write d"
  shows "Lookup x fs d name wd =
           (Ok (FileNode \<lparr>directory = set_Path (copy d) (path_Join x (Path_of d) name),
                          size' = 0, local = False\<rparr>), wd)"
  using assms by (simp add: Lookup_def lookUpFile_def i64_def)

theorem Lookup_writable_witness:
  "Repo_Name_of (node_at ''R'' ''c9'' ''sub'' True) \<noteq> []
   \<and> Commit_ID_of (node_at ''R'' ''c9'' ''sub'' True) \<noteq> []
   \<and> Write (node_at ''R'' ''c9'' ''sub'' True)
   \<and> Lookup service fs_none (node_at ''R'' ''c9'' ''sub'' True) ''x'' world0
       = (Ok (FileNode \<lparr>directory = node_at ''R'' ''c9'' ''sub/x'' True, size' = 0, local = False\<rparr>),
          world0)"
  using Lookup_writable [of "node_at ''R'' ''c9'' ''sub'' True" service fs_none "''x''" world0]
  by (simp add: node_at_def service_def join2_def copy_def set_Path_def)

section \<open>Helper facts about writes\<close>

lemma i64_id: "- (2 ^ 63) \<le> x \<Longrightarrow> x < 2 ^ 63 \<Longrightarrow> i64 x = x"
  by (simp add: i64_def)

lemma forwarded_append: "forwarded w (cs @ ds) = forwarded w cs @ forwarded w ds"
  by (induction w cs rule: forwarded.induct) simp_all


section \<open>Create, Mkdir, Remove and Write on a node that is not writable\<close>




section \<open>Lookup of an unknown name at the root\<close>

text \<open>
  C6, as the spec has it, fails: with an empty mount list the name \<open>Q\<close>, of no repo of
  the data service, is given an ad-hoc mount and inspected, and the lookup returns the
  error of the data service, not \<open>EPERM\<close>.
\<close>

theorem Lookup_root_counterexample:
  "CommitMounts (Filesystem fs_none) = []
   \<and> Repo_Name_of Root = []
   \<and> InspectRepo service ''Q'' [] = (Inl (RpcError NotFound ''repo not found''), [])
   \<and> fst (Lookup service fs_none Root ''Q'' world0) = Err (RpcError NotFound ''repo not found'')
   \<and> fst (Lookup service fs_none Root ''Q'' world0) \<noteq> Err (Errno EPERM)"
  by (simp add: Lookup_def lookUpRepo_def getCommitMount_def fs_none_def newFilesystem_def
      Root_def NewCommit_def service_def do_call_def world0_def)

text \<open>
  C6, amended. At the root, with a mount list that is not empty, the lookup of a name
  that is no alias and no repo name of a mount returns \<open>EPERM\<close> and makes no call. With
  an empty mount list the name is inspected as a repo: the lookup returns the error of
  \<open>InspectRepo\<close>, and \<open>ENOENT\<close> when \<open>InspectRepo\<close> returns no repo info and no error.
\<close>

theorem Lookup_root_unknown:
  "(Repo_Name_of d = [] \<longrightarrow> CommitMounts (Filesystem fs) \<noteq> [] \<longrightarrow>
      (\<forall>c\<in>set (CommitMounts (Filesystem fs)).
          Alias c \<noteq> name \<and> Name (Commit.Repo (CommitMount.Commit c)) \<noteq> name) \<longrightarrow>
      Lookup x fs d name wd = (Err (Errno EPERM), wd))
   \<and> (Repo_Name_of d = [] \<longrightarrow> CommitMounts (Filesystem fs) = [] \<longrightarrow>
      InspectRepo x name (fst wd) = (Inl err, s) \<longrightarrow>
      Lookup x fs d name wd = (Err err, (s, snd wd @ [Call_InspectRepo name])))
   \<and> (Repo_Name_of d = [] \<longrightarrow> CommitMounts (Filesystem fs) = [] \<longrightarrow>
      InspectRepo x name (fst wd) = (Inr None, s) \<longrightarrow>
      Lookup x fs d name wd = (Err (Errno ENOENT), (s, snd wd @ [Call_InspectRepo name])))"
proof (intro conjI impI)
  assume a: "Repo_Name_of d = []" "CommitMounts (Filesystem fs) \<noteq> []"
    "\<forall>c\<in>set (CommitMounts (Filesystem fs)).
          Alias c \<noteq> name \<and> Name (Commit.Repo (CommitMount.Commit c)) \<noteq> name"
  have "find (\<lambda>c. Alias c = name) (CommitMounts (Filesystem fs)) = None"
    using a(3) by (simp add: find_None_iff)
  moreover have "find (\<lambda>c. Name (Commit.Repo (CommitMount.Commit c)) = name)
      (CommitMounts (Filesystem fs)) = None"
    using a(3) by (simp add: find_None_iff)
  ultimately have "getCommitMount fs name = None"
    using a(2) by (simp add: getCommitMount_def)
  then show "Lookup x fs d name wd = (Err (Errno EPERM), wd)"
    using a(1) by (simp add: Lookup_def lookUpRepo_def)
next
  assume a: "Repo_Name_of d = []" "CommitMounts (Filesystem fs) = []"
    "InspectRepo x name (fst wd) = (Inl err, s)"
  then show "Lookup x fs d name wd = (Err err, (s, snd wd @ [Call_InspectRepo name]))"
    by (simp add: Lookup_def lookUpRepo_def getCommitMount_def NewCommit_def do_call_def)
next
  assume a: "Repo_Name_of d = []" "CommitMounts (Filesystem fs) = []"
    "InspectRepo x name (fst wd) = (Inr None, s)"
  then show "Lookup x fs d name wd = (Err (Errno ENOENT), (s, snd wd @ [Call_InspectRepo name]))"
    by (simp add: Lookup_def lookUpRepo_def getCommitMount_def NewCommit_def do_call_def)
qed

theorem Lookup_root_unknown_witness:
  "Repo_Name_of Root = []
   \<and> CommitMounts (Filesystem fs_two) \<noteq> []
   \<and> Alias mount_out \<noteq> ''Q'' \<and> Name (Commit.Repo (CommitMount.Commit mount_out)) \<noteq> ''Q''
   \<and> Alias mount_R \<noteq> ''Q'' \<and> Name (Commit.Repo (CommitMount.Commit mount_R)) \<noteq> ''Q''
   \<and> Lookup service fs_two Root ''Q'' world0 = (Err (Errno EPERM), world0)
   \<and> CommitMounts (Filesystem fs_none) = []
   \<and> InspectRepo service ''Q'' (fst world0) = (Inl (RpcError NotFound ''repo not found''), [])
   \<and> Lookup service fs_none Root ''Q'' world0
       = (Err (RpcError NotFound ''repo not found''), ([], [Call_InspectRepo ''Q'']))
   \<and> InspectRepo (service\<lparr>InspectRepo := \<lambda>repo s. (Inr None, s)\<rparr>) ''Q'' (fst world0)
       = (Inr None, [])
   \<and> Lookup (service\<lparr>InspectRepo := \<lambda>repo s. (Inr None, s)\<rparr>) fs_none Root ''Q'' world0
       = (Err (Errno ENOENT), ([], [Call_InspectRepo ''Q'']))"
  using Lookup_root_unknown [of Root fs_two "''Q''" service world0]
    Lookup_root_unknown [of Root fs_none "''Q''" service world0
      "RpcError NotFound ''repo not found''" "[]"]
    Lookup_root_unknown [of Root fs_none "''Q''"
      "service\<lparr>InspectRepo := \<lambda>repo s. (Inr None, s)\<rparr>" world0 _ "[]"]
  by (simp add: Root_def fs_two_def fs_none_def newFilesystem_def mount_out_def mount_R_def
      NewCommit_def service_def world0_def)

section \<open>Writing to a handle\<close>

text \<open>
  C4, as the spec has it, fails: on a gap (the handle has written 0 bytes and the write
  is at offset 5) \<open>Write\<close> returns the plain error of \<open>fmt.Errorf\<close> with the message
  about the gap, which is not the errno value \<open>EINVAL\<close>.
\<close>

theorem handle_Write_gap_counterexample:
  "i64 (written (\<lparr>h_f = file_at ''R'' ''c9'' ''log'' True, h_w = Some (0::nat), written = 0\<rparr>) - 5) < 0
   \<and> fst (handle_Write service fs_none
             \<lparr>h_f = file_at ''R'' ''c9'' ''log'' True, h_w = Some 0, written = 0\<rparr> 5 ''x'' world0)
       = Err (Errorf ''gap in bytes written, (OpenNonSeekable should make this impossible)'')
   \<and> fst (handle_Write service fs_none
             \<lparr>h_f = file_at ''R'' ''c9'' ''log'' True, h_w = Some 0, written = 0\<rparr> 5 ''x'' world0)
       \<noteq> Err (Errno EINVAL)"
  by (simp add: handle_Write_def i64_def Let_def)

text \<open>
  C4, amended. When \<open>written - offset\<close>, as the code computes it, is negative, \<open>Write\<close>
  does not panic and hands no bytes to a writer. With a writer open, or one that
  \<open>PutFileWriter\<close> opens, it returns a plain error (not an errno value) with the message
  about the gap; when \<open>PutFileWriter\<close> fails it returns that error instead.
\<close>

theorem handle_Write_gap:
  assumes "i64 (written h - offset) < 0"
  shows "(h_w h = Some w \<longrightarrow>
            handle_Write x fs h offset data wd
              = (Err (Errorf ''gap in bytes written, (OpenNonSeekable should make this impossible)''),
                 h, wd))
         \<and> (h_w h = None \<longrightarrow>
              PutFileWriter x (Repo_Name_of (directory (h_f h))) (Commit_ID_of (directory (h_f h)))
                (Path_of (directory (h_f h))) (handleID fs) (fst wd) = (Inr w, s) \<longrightarrow>
              handle_Write x fs h offset data wd
                = (Err (Errorf ''gap in bytes written, (OpenNonSeekable should make this impossible)''),
                   h\<lparr>h_w := Some w\<rparr>,
                   (s, snd wd @ [Call_PutFileWriter (Repo_Name_of (directory (h_f h)))
                                   (Commit_ID_of (directory (h_f h)))
                                   (Path_of (directory (h_f h))) (handleID fs)])))
         \<and> (h_w h = None \<longrightarrow>
              PutFileWriter x (Repo_Name_of (directory (h_f h))) (Commit_ID_of (directory (h_f h)))
                (Path_of (directory (h_f h))) (handleID fs) (fst wd) = (Inl err, s) \<longrightarrow>
              handle_Write x fs h offset data wd
                = (Err err, h,
                   (s, snd wd @ [Call_PutFileWriter (Repo_Name_of (directory (h_f h)))
                                   (Commit_ID_of (directory (h_f h)))
                                   (Path_of (directory (h_f h))) (handleID fs)])))
         \<and> (\<exists>e. fst (handle_Write x fs h offset data wd) = Err e)
         \<and> forwarded w' (snd (snd (snd (handle_Write x fs h offset data wd))))
             = forwarded w' (snd wd)"
proof -
  have 1: "h_w h = Some w \<Longrightarrow> handle_Write x fs h offset data wd
              = (Err (Errorf ''gap in bytes written, (OpenNonSeekable should make this impossible)''),
                 h, wd)" for w
    using assms by (simp add: handle_Write_def Let_def)
  have 2: "h_w h = None \<Longrightarrow>
              PutFileWriter x (Repo_Name_of (directory (h_f h))) (Commit_ID_of (directory (h_f h)))
                (Path_of (directory (h_f h))) (handleID fs) (fst wd) = (Inr w, s) \<Longrightarrow>
              handle_Write x fs h offset data wd
                = (Err (Errorf ''gap in bytes written, (OpenNonSeekable should make this impossible)''),
                   h\<lparr>h_w := Some w\<rparr>,
                   (s, snd wd @ [Call_PutFileWriter (Repo_Name_of (directory (h_f h)))
                                   (Commit_ID_of (directory (h_f h)))
                                   (Path_of (directory (h_f h))) (handleID fs)]))" for w s
    using assms by (simp add: handle_Write_def Let_def do_call_def)
  have 3: "h_w h = None \<Longrightarrow>
              PutFileWriter x (Repo_Name_of (directory (h_f h))) (Commit_ID_of (directory (h_f h)))
                (Path_of (directory (h_f h))) (handleID fs) (fst wd) = (Inl err, s) \<Longrightarrow>
              handle_Write x fs h offset data wd
                = (Err err, h,
                   (s, snd wd @ [Call_PutFileWriter (Repo_Name_of (directory (h_f h)))
                                   (Commit_ID_of (directory (h_f h)))
                                   (Path_of (directory (h_f h))) (handleID fs)]))" for err s
    by (simp add: handle_Write_def Let_def do_call_def)
  have fw: "forwarded w' (cs @ [Call_PutFileWriter a b c e]) = forwarded w' cs" for cs a b c e
    by (induction w' cs rule: forwarded.induct) simp_all
  have 4: "(\<exists>e. fst (handle_Write x fs h offset data wd) = Err e)
         \<and> forwarded w' (snd (snd (snd (handle_Write x fs h offset data wd))))
             = forwarded w' (snd wd)"
  proof (cases "h_w h")
    case (Some v)
    then show ?thesis using 1 [of v] by simp
  next
    case None
    obtain r s' where p: "PutFileWriter x (Repo_Name_of (directory (h_f h)))
        (Commit_ID_of (directory (h_f h))) (Path_of (directory (h_f h))) (handleID fs) (fst wd)
        = (r, s')"
      by (cases "PutFileWriter x (Repo_Name_of (directory (h_f h)))
        (Commit_ID_of (directory (h_f h))) (Path_of (directory (h_f h))) (handleID fs) (fst wd)")
    show ?thesis
    proof (cases r)
      case (Inl e)
      then show ?thesis using 3 [OF None, of e s'] p by (simp add: fw)
    next
      case (Inr v)
      then show ?thesis using 2 [OF None, of v s'] p by (simp add: fw)
    qed
  qed
  show ?thesis using 1 2 3 4 by blast
qed

theorem handle_Write_gap_witness:
  "i64 (written \<lparr>h_f = file_at ''R'' ''c9'' ''log'' True, h_w = Some (0::nat), written = 3\<rparr> - 5) < 0
   \<and> h_w \<lparr>h_f = file_at ''R'' ''c9'' ''log'' True, h_w = Some (0::nat), written = 3\<rparr> = Some 0
   \<and> handle_Write service fs_none
        \<lparr>h_f = file_at ''R'' ''c9'' ''log'' True, h_w = Some 0, written = 3\<rparr> 5 ''x'' world0
       = (Err (Errorf ''gap in bytes written, (OpenNonSeekable should make this impossible)''),
          \<lparr>h_f = file_at ''R'' ''c9'' ''log'' True, h_w = Some 0, written = 3\<rparr>, world0)
   \<and> i64 (written (newHandle (file_at ''R'' ''c9'' ''log'' True) :: nat handle) - 5) < 0
   \<and> h_w (newHandle (file_at ''R'' ''c9'' ''log'' True) :: nat handle) = None
   \<and> PutFileWriter service ''R'' ''c9'' ''log'' ''h1'' (fst world0) = (Inr 0, [])
   \<and> handle_Write service fs_none (newHandle (file_at ''R'' ''c9'' ''log'' True)) 5 ''x'' world0
       = (Err (Errorf ''gap in bytes written, (OpenNonSeekable should make this impossible)''),
          \<lparr>h_f = file_at ''R'' ''c9'' ''log'' True, h_w = Some 0, written = 0\<rparr>,
          ([], [Call_PutFileWriter ''R'' ''c9'' ''log'' ''h1'']))
   \<and> PutFileWriter (service\<lparr>PutFileWriter := \<lambda>repo c p hid s. (Inl (RpcError Unknown ''down''), s)\<rparr>)
        ''R'' ''c9'' ''log'' ''h1'' (fst world0) = (Inl (RpcError Unknown ''down''), [])
   \<and> handle_Write (service\<lparr>PutFileWriter := \<lambda>repo c p hid s. (Inl (RpcError Unknown ''down''), s)\<rparr>)
        fs_none (newHandle (file_at ''R'' ''c9'' ''log'' True)) 5 ''x'' world0
       = (Err (RpcError Unknown ''down''), newHandle (file_at ''R'' ''c9'' ''log'' True),
          ([], [Call_PutFileWriter ''R'' ''c9'' ''log'' ''h1'']))"
  using handle_Write_gap
      [of "\<lparr>h_f = file_at ''R'' ''c9'' ''log'' True, h_w = Some (0::nat), written = 3\<rparr>" 5 0
          service fs_none "''x''" world0]
    handle_Write_gap
      [of "newHandle (file_at ''R'' ''c9'' ''log'' True)" 5 0 service fs_none "''x''" world0 "[]"]
    handle_Write_gap
      [of "newHandle (file_at ''R'' ''c9'' ''log'' True)" 5 0
          "service\<lparr>PutFileWriter := \<lambda>repo c p hid s. (Inl (RpcError Unknown ''down''), s)\<rparr>"
          fs_none "''x''" world0 "[]" "RpcError Unknown ''down''"]
  by (simp add: i64_def newHandle_def file_at_def node_at_def service_def world0_def
      fs_none_def newFilesystem_def)

text \<open>
  C10. With a writer open, or one that \<open>PutFileWriter\<close> opens, \<open>Write\<close> panics with a
  slice bound out of range exactly when \<open>written - offset\<close>, as the code computes it, is
  greater than the length of the data: it is not the error of the negative gap.
\<close>

theorem handle_Write_slice_panic:
  assumes "h_w h = Some w
           \<or> (h_w h = None
               \<and> fst (PutFileWriter x (Repo_Name_of (directory (h_f h)))
                         (Commit_ID_of (directory (h_f h))) (Path_of (directory (h_f h)))
                         (handleID fs) (fst wd)) = Inr w)"
  shows "(fst (handle_Write x fs h offset data wd) = Panic SliceBoundsOutOfRange)
           = (int (length data) < i64 (written h - offset))"
  using assms
  by (auto simp add: handle_Write_def do_call_def Let_def
      split: prod.splits option.splits sum.splits)

text \<open>
  After five bytes written, the three bytes \<open>hel\<close> at offset 0 panic; the five bytes
  \<open>hello\<close> at offset 0 do not.
\<close>

theorem handle_Write_slice_panic_witness:
  "h_w \<lparr>h_f = file_at ''R'' ''c9'' ''log'' True, h_w = Some (0::nat), written = 5\<rparr> = Some 0
   \<and> int (length ''hel'') < i64 (5 - 0)
   \<and> fst (handle_Write service fs_none
             \<lparr>h_f = file_at ''R'' ''c9'' ''log'' True, h_w = Some 0, written = 5\<rparr> 0 ''hel'' world0)
       = Panic SliceBoundsOutOfRange
   \<and> \<not> int (length ''hello'') < i64 (5 - 0)
   \<and> fst (handle_Write service fs_none
             \<lparr>h_f = file_at ''R'' ''c9'' ''log'' True, h_w = Some 0, written = 5\<rparr> 0 ''hello'' world0)
       \<noteq> Panic SliceBoundsOutOfRange"
  using handle_Write_slice_panic
      [of "\<lparr>h_f = file_at ''R'' ''c9'' ''log'' True, h_w = Some (0::nat), written = 5\<rparr>" 0
          service fs_none world0 0 "''hel''"]
    handle_Write_slice_panic
      [of "\<lparr>h_f = file_at ''R'' ''c9'' ''log'' True, h_w = Some (0::nat), written = 5\<rparr>" 0
          service fs_none world0 0 "''hello''"]
  by (simp add: i64_def)

text \<open>
  C1. On a handle that has written nothing, with a writer that takes every byte it is
  given: \<open>Write\<close> of \<open>A\<close> at offset 0 reports the size \<open>|A|\<close> and hands \<open>A\<close> to the
  writer; \<open>Write\<close> of \<open>A @ B\<close> at offset 0 on the handle that results reports the size
  \<open>|A| + |B|\<close> and hands only \<open>B\<close> to the writer, so that the writer has been given
  \<open>A @ B\<close> by the two calls. The lengths are those of Go slices, below \<open>2 ^ 63\<close>.
\<close>

theorem handle_Write_duplicate_window:
  assumes writer: "(h_w h = Some w \<and> s1 = fst wd)
           \<or> (h_w h = None
               \<and> PutFileWriter x (Repo_Name_of (directory (h_f h)))
                    (Commit_ID_of (directory (h_f h))) (Path_of (directory (h_f h)))
                    (handleID fs) (fst wd) = (Inr w, s1))"
    and fresh: "written h = 0"
    and first: "writer_Write x w A s1 = ((int (length A), None), s2)"
    and second: "writer_Write x w B s2 = ((int (length B), None), s3)"
    and len: "int (length A) + int (length B) < 2 ^ 63"
  shows "(case handle_Write x fs h 0 A wd of
            (r1, h1, wd1) \<Rightarrow>
              r1 = Ok (int (length A))
              \<and> fst wd1 = s2
              \<and> forwarded w (snd wd1) = forwarded w (snd wd) @ A
              \<and> (case handle_Write x fs h1 0 (A @ B) wd1 of
                    (r2, h2, wd2) \<Rightarrow>
                      r2 = Ok (int (length A) + int (length B))
                      \<and> fst wd2 = s3
                      \<and> snd wd2 = snd wd1 @ [Call_Write w B]
                      \<and> forwarded w (snd wd2) = forwarded w (snd wd) @ A @ B
                      \<and> written h2 = int (length A) + int (length B)))"
proof -
  have la: "i64 (int (length A)) = int (length A)"
    using len by (intro i64_id) auto
  have lab: "i64 (int (length B) + int (length A)) = int (length B) + int (length A)"
    using len by (intro i64_id) auto
  have lab': "i64 (int (length A) + int (length B)) = int (length A) + int (length B)"
    using len by (intro i64_id) auto
  have z: "i64 0 = 0" by (simp add: i64_def)
  define h1 where "h1 = h\<lparr>h_w := Some w, written := int (length A),
      h_f := (h_f h)\<lparr>size' := (if size' (h_f h) < int (length A) then int (length A)
                               else size' (h_f h))\<rparr>\<rparr>"
  from writer have w1: "\<exists>cs. handle_Write x fs h 0 A wd
      = (Ok (int (length A)), h1, (s2, snd wd @ cs @ [Call_Write w A]))
      \<and> forwarded w cs = []"
  proof
    assume "h_w h = Some w \<and> s1 = fst wd"
    then have "handle_Write x fs h 0 A wd
      = (Ok (int (length A)), h1, (s2, snd wd @ [] @ [Call_Write w A]))"
      using fresh first
      by (simp add: handle_Write_def do_call_def Let_def z la h1_def)
    then show ?thesis by (intro exI[of _ "[]"]) simp
  next
    assume "h_w h = None
               \<and> PutFileWriter x (Repo_Name_of (directory (h_f h)))
                    (Commit_ID_of (directory (h_f h))) (Path_of (directory (h_f h)))
                    (handleID fs) (fst wd) = (Inr w, s1)"
    then have "handle_Write x fs h 0 A wd
      = (Ok (int (length A)), h1,
         (s2, snd wd @ [Call_PutFileWriter (Repo_Name_of (directory (h_f h)))
                    (Commit_ID_of (directory (h_f h))) (Path_of (directory (h_f h)))
                    (handleID fs)] @ [Call_Write w A]))"
      using fresh first
      by (simp add: handle_Write_def do_call_def Let_def z la h1_def)
    then show ?thesis
      by (intro exI[of _ "[Call_PutFileWriter (Repo_Name_of (directory (h_f h)))
                    (Commit_ID_of (directory (h_f h))) (Path_of (directory (h_f h)))
                    (handleID fs)]"]) simp
  qed
  then obtain cs where w1: "handle_Write x fs h 0 A wd
      = (Ok (int (length A)), h1, (s2, snd wd @ cs @ [Call_Write w A]))"
    and cs: "forwarded w cs = []" by blast
  have lb: "i64 (int (length B)) = int (length B)"
    using len by (intro i64_id) auto
  have w2: "\<exists>h2. handle_Write x fs h1 0 (A @ B) (s2, tr)
      = (Ok (int (length A) + int (length B)), h2, (s3, tr @ [Call_Write w B]))
      \<and> written h2 = int (length A) + int (length B)" for tr
    using second
    by (simp add: handle_Write_def do_call_def Let_def z la lb lab lab' h1_def add.commute)
  obtain h2 where w2': "handle_Write x fs h1 0 (A @ B) (s2, snd wd @ cs @ [Call_Write w A])
      = (Ok (int (length A) + int (length B)), h2,
         (s3, (snd wd @ cs @ [Call_Write w A]) @ [Call_Write w B]))"
    and wr: "written h2 = int (length A) + int (length B)"
    using w2 [of "snd wd @ cs @ [Call_Write w A]"] by blast
  show ?thesis
    by (simp add: w1 w2' wr forwarded_append cs)
qed

text \<open>
  The scenario of the spec: \<open>hello\<close> at offset 0, then \<open>helloworld\<close> at offset 0.
\<close>

theorem handle_Write_duplicate_window_witness:
  "h_w (newHandle (file_at ''R'' ''c9'' ''log'' True) :: nat handle) = None
   \<and> PutFileWriter service ''R'' ''c9'' ''log'' ''h1'' (fst world0) = (Inr 0, [])
   \<and> written (newHandle (file_at ''R'' ''c9'' ''log'' True) :: nat handle) = 0
   \<and> writer_Write service 0 ''hello'' [] = ((int (length ''hello''), None), ''hello'')
   \<and> writer_Write service 0 ''world'' ''hello'' = ((int (length ''world''), None), ''helloworld'')
   \<and> int (length ''hello'') + int (length ''world'') < 2 ^ 63
   \<and> (case handle_Write service fs_none (newHandle (file_at ''R'' ''c9'' ''log'' True)) 0 ''hello'' world0 of
         (r1, h1, wd1) \<Rightarrow>
           r1 = Ok 5
           \<and> wd1 = (''hello'', [Call_PutFileWriter ''R'' ''c9'' ''log'' ''h1'', Call_Write 0 ''hello''])
           \<and> (case handle_Write service fs_none h1 0 ''helloworld'' wd1 of
                 (r2, h2, wd2) \<Rightarrow>
                   r2 = Ok 10
                   \<and> wd2 = (''helloworld'',
                            [Call_PutFileWriter ''R'' ''c9'' ''log'' ''h1'', Call_Write 0 ''hello'',
                             Call_Write 0 ''world''])
                   \<and> forwarded 0 (snd wd2) = ''helloworld''))"
  using handle_Write_duplicate_window
      [of "newHandle (file_at ''R'' ''c9'' ''log'' True)" 0 "[]" world0 service fs_none
          "''hello''" "''hello''" "''world''" "''helloworld''"]
  by (simp add: newHandle_def file_at_def node_at_def service_def world0_def fs_none_def
      newFilesystem_def handle_Write_def do_call_def i64_def Let_def)

section \<open>Reading the directory of a commit\<close>

lemma trim_self: "strings_TrimPrefix p p = []"
  by (simp add: strings_TrimPrefix_def strings_HasPrefix_def)

lemma trim_extension: "rest \<noteq> [] \<Longrightarrow> strings_TrimPrefix (p @ rest) p = rest"
  by (simp add: strings_TrimPrefix_def strings_HasPrefix_def)

lemma readFiles_loop_panic:
  "\<exists>fi\<in>set fis. strings_TrimPrefix (File_Path fi) p = [] \<Longrightarrow>
   readFiles_loop p fis acc = Panic IndexOutOfRange"
proof (induction fis arbitrary: acc)
  case Nil
  then show ?case by simp
next
  case (Cons fi fis)
  show ?case
  proof (cases "strings_TrimPrefix (File_Path fi) p")
    case Nil
    then show ?thesis by simp
  next
    case (Cons c cs)
    with Cons.prems have "\<exists>fi\<in>set fis. strings_TrimPrefix (File_Path fi) p = []"
      by auto
    then have "readFiles_loop p fis acc' = Panic IndexOutOfRange" for acc'
      by (rule Cons.IH)
    then show ?thesis
      using Cons by (simp add: Let_def split: FileType.splits)
  qed
qed

lemma readFiles_loop_ok:
  "\<forall>fi\<in>set fis. strings_TrimPrefix (File_Path fi) p \<noteq> [] \<Longrightarrow>
   \<exists>es. readFiles_loop p fis acc = Ok es"
proof (induction fis arbitrary: acc)
  case Nil
  then show ?case by simp
next
  case (Cons fi fis)
  then obtain c cs where t: "strings_TrimPrefix (File_Path fi) p = c # cs"
    by (cases "strings_TrimPrefix (File_Path fi) p") auto
  from Cons.prems have "\<forall>fi\<in>set fis. strings_TrimPrefix (File_Path fi) p \<noteq> []"
    by simp
  then have "\<exists>es. readFiles_loop p fis acc' = Ok es" for acc'
    by (rule Cons.IH)
  then show ?case
    using t by (simp add: Let_def split: FileType.splits)
qed

text \<open>
  C9. On a directory with a repo name and a commit id, when \<open>ListFile\<close> succeeds:
  if an entry has the path of the directory itself, \<open>ReadDirAll\<close> panics with an index
  out of range (the stripped name is empty and its first byte is read); if the path of
  every entry is the path of the directory followed by at least one byte, \<open>ReadDirAll\<close>
  returns a list of entries.
\<close>

theorem ReadDirAll_panic:
  assumes "Repo_Name_of d \<noteq> []" and "Commit_ID_of d \<noteq> []"
    and "ListFile x (Repo_Name_of d) (Commit_ID_of d) (Path_of d)
           (getFromCommitID fs (getRepoOrAliasName d)) (Node.Shard d) (fst wd)
         = (Inr fileInfos, s)"
  shows "((\<exists>fi\<in>set fileInfos. File_Path fi = Path_of d) \<longrightarrow>
            fst (ReadDirAll x fs d wd) = Panic IndexOutOfRange)
         \<and> ((\<forall>fi\<in>set fileInfos. \<exists>rest. rest \<noteq> [] \<and> File_Path fi = Path_of d @ rest) \<longrightarrow>
            (\<exists>es. fst (ReadDirAll x fs d wd) = Ok es))"
proof (intro conjI impI)
  have r: "fst (ReadDirAll x fs d wd) = readFiles_loop (Path_of d) fileInfos []"
    using assms by (simp add: ReadDirAll_def readFiles_def do_call_def split: prod.splits)
  {
    assume "\<exists>fi\<in>set fileInfos. File_Path fi = Path_of d"
    then obtain fi where fi: "fi \<in> set fileInfos" "File_Path fi = Path_of d"
      by blast
    have "strings_TrimPrefix (File_Path fi) (Path_of d) = []"
      unfolding fi(2) by (rule trim_self)
    with fi(1) have "\<exists>fi\<in>set fileInfos. strings_TrimPrefix (File_Path fi) (Path_of d) = []"
      by blast
    then show "fst (ReadDirAll x fs d wd) = Panic IndexOutOfRange"
      using r by (simp add: readFiles_loop_panic)
  }
  {
    assume "\<forall>fi\<in>set fileInfos. \<exists>rest. rest \<noteq> [] \<and> File_Path fi = Path_of d @ rest"
    then have "\<forall>fi\<in>set fileInfos. strings_TrimPrefix (File_Path fi) (Path_of d) \<noteq> []"
      using trim_extension by metis
    then show "\<exists>es. fst (ReadDirAll x fs d wd) = Ok es"
      using r by (simp add: readFiles_loop_ok)
  }
qed

theorem ReadDirAll_panic_witness:
  "Repo_Name_of (node_at ''R'' ''c1'' ''sub'' False) \<noteq> []
   \<and> Commit_ID_of (node_at ''R'' ''c1'' ''sub'' False) \<noteq> []
   \<and> ListFile service ''R'' ''c1'' ''sub'' [] None (fst world0)
       = (Inr [\<lparr>File_Path = ''sub'', FileType = FILE_TYPE_DIR, SizeBytes = 0\<rparr>], [])
   \<and> File_Path \<lparr>File_Path = ''sub'', FileType = FILE_TYPE_DIR, SizeBytes = 0\<rparr>
       = Path_of (node_at ''R'' ''c1'' ''sub'' False)
   \<and> fst (ReadDirAll service fs_none (node_at ''R'' ''c1'' ''sub'' False) world0)
       = Panic IndexOutOfRange
   \<and> Repo_Name_of (node_at ''R'' ''c1'' [] False) \<noteq> []
   \<and> Commit_ID_of (node_at ''R'' ''c1'' [] False) \<noteq> []
   \<and> ListFile service ''R'' ''c1'' [] [] None (fst world0)
       = (Inr [\<lparr>File_Path = ''/a.txt'', FileType = FILE_TYPE_REGULAR, SizeBytes = 3\<rparr>,
               \<lparr>File_Path = ''/sub'', FileType = FILE_TYPE_DIR, SizeBytes = 0\<rparr>], [])
   \<and> ''/a.txt'' = Path_of (node_at ''R'' ''c1'' [] False) @ ''/a.txt''
   \<and> ''/sub'' = Path_of (node_at ''R'' ''c1'' [] False) @ ''/sub''
   \<and> fst (ReadDirAll service fs_none (node_at ''R'' ''c1'' [] False) world0)
       = Ok [\<lparr>dirent_Name = ''a.txt'', dirent_Type = DT_File\<rparr>,
             \<lparr>dirent_Name = ''sub'', dirent_Type = DT_Dir\<rparr>]"
  using ReadDirAll_panic
      [of "node_at ''R'' ''c1'' ''sub'' False" service fs_none world0
          "[\<lparr>File_Path = ''sub'', FileType = FILE_TYPE_DIR, SizeBytes = 0\<rparr>]" "[]"]
    ReadDirAll_panic
      [of "node_at ''R'' ''c1'' [] False" service fs_none world0
          "[\<lparr>File_Path = ''/a.txt'', FileType = FILE_TYPE_REGULAR, SizeBytes = 3\<rparr>,
            \<lparr>File_Path = ''/sub'', FileType = FILE_TYPE_DIR, SizeBytes = 0\<rparr>]" "[]"]
  by (simp add: node_at_def service_def world0_def fs_none_def newFilesystem_def
      getFromCommitID_def getCommitMount_def getRepoOrAliasName_def NewCommit_def
      ReadDirAll_def readFiles_def do_call_def strings_TrimPrefix_def strings_HasPrefix_def)

section \<open>The inode table\<close>

lemma inodes_wf_bound:
  assumes wf: "inodes_wf tbl" and m: "map_of tbl k = Some i"
  shows "i < length tbl"
proof -
  from wf have e: "map snd tbl = [0..<length tbl]" by (simp add: inodes_wf_def)
  from m have "(k, i) \<in> set tbl" by (rule map_of_SomeD)
  then have "i \<in> set (map snd tbl)" by force
  then have "i \<in> set [0..<length tbl]" unfolding e .
  then show ?thesis by simp
qed

lemma inodes_wf_inj:
  assumes wf: "inodes_wf tbl" and a: "map_of tbl k = Some i" and b: "map_of tbl k' = Some i"
  shows "k = k'"
proof -
  from wf have e: "map snd tbl = [0..<length tbl]" by (simp add: inodes_wf_def)
  have "distinct [0..<length tbl]" by simp
  then have "distinct (map snd tbl)" unfolding e .
  then have inj: "inj_on snd (set tbl)" by (simp add: distinct_map)
  have ki: "(k, i) \<in> set tbl" and k'i: "(k', i) \<in> set tbl"
    using a b by (auto dest: map_of_SomeD)
  have e2: "snd (k, i) = snd (k', i)" by simp
  from inj e2 ki k'i have "(k, i) = (k', i)"
    by (rule inj_onD)
  then show ?thesis by simp
qed

lemma inode_wf: "inodes_wf (inodes f) \<Longrightarrow> inodes_wf (inodes (snd (inode f file)))"
  by (auto simp add: inode_def inodes_wf_def Let_def map_of_eq_None_iff split: option.splits)

lemma inode_stored:
  "map_of (inodes (snd (inode f file))) (key file) = Some (fst (inode f file))"
  by (auto simp add: inode_def Let_def map_add_def split: option.splits)

lemma inode_keeps:
  "map_of (inodes f) k = Some i \<Longrightarrow> map_of (inodes (snd (inode f file))) k = Some i"
  by (auto simp add: inode_def Let_def map_add_def split: option.splits)

lemma inode_seq_wf: "inodes_wf (inodes f) \<Longrightarrow> inodes_wf (inodes (inode_seq f files))"
  by (induction files arbitrary: f) (simp_all add: inode_wf)

lemma inode_seq_keeps:
  "map_of (inodes f) k = Some i \<Longrightarrow> map_of (inodes (inode_seq f files)) k = Some i"
  by (induction files arbitrary: f) (simp_all add: inode_keeps)

lemma inode_hit: "map_of (inodes f) (key file) = Some i \<Longrightarrow> fst (inode f file) = i"
  by (simp add: inode_def)

lemma inode_eq_iff:
  assumes wf: "inodes_wf (inodes f)" and a: "map_of (inodes f) k = Some i"
  shows "(fst (inode f file) = i) = (key file = k)"
proof
  assume "key file = k"
  then show "fst (inode f file) = i" using a by (simp add: inode_hit)
next
  assume e: "fst (inode f file) = i"
  show "key file = k"
  proof (cases "map_of (inodes f) (key file)")
    case None
    then have "fst (inode f file) = length (inodes f)"
      by (simp add: inode_def Let_def)
    moreover have "i < length (inodes f)" using wf a by (rule inodes_wf_bound)
    ultimately show ?thesis using e by simp
  next
    case (Some j)
    then have "fst (inode f file) = j" by (rule inode_hit)
    with e Some have "map_of (inodes f) (key file) = Some i" by simp
    then show ?thesis using wf a by (intro inodes_wf_inj[of "inodes f" _ i]) auto
  qed
qed

lemma newFilesystem_wf: "inodes_wf (inodes (newFilesystem shard mounts uuid))"
  by (simp add: newFilesystem_def inodes_wf_def)

lemma key_inj:
  assumes "CHR ''/'' \<notin> set r" "CHR ''/'' \<notin> set c" "CHR ''/'' \<notin> set r'" "CHR ''/'' \<notin> set c'"
    and "r @ ''/'' @ c @ ''/'' @ p = r' @ ''/'' @ c' @ ''/'' @ p'"
  shows "r = r' \<and> c = c' \<and> p = p'"
proof -
  have split: "\<And>u v u' v'. CHR ''/'' \<notin> set u \<Longrightarrow> CHR ''/'' \<notin> set u' \<Longrightarrow>
      u @ CHR ''/'' # v = u' @ CHR ''/'' # v' \<Longrightarrow> u = u' \<and> v = v'"
  proof -
    fix u v u' v' :: string
    assume 1: "CHR ''/'' \<notin> set u" and 2: "CHR ''/'' \<notin> set u'"
      and 3: "u @ CHR ''/'' # v = u' @ CHR ''/'' # v'"
    have "takeWhile (\<lambda>ch. ch \<noteq> CHR ''/'') (u @ CHR ''/'' # v) = u"
      using 1 by (auto simp add: takeWhile_tail)
    moreover have "takeWhile (\<lambda>ch. ch \<noteq> CHR ''/'') (u' @ CHR ''/'' # v') = u'"
      using 2 by (auto simp add: takeWhile_tail)
    ultimately have "u = u'" using 3 by simp
    with 3 show "u = u' \<and> v = v'" by simp
  qed
  from assms(5) have e: "r @ CHR ''/'' # (c @ ''/'' @ p) = r' @ CHR ''/'' # (c' @ ''/'' @ p')"
    by simp
  from split [OF assms(1) assms(3) e] have r: "r = r'" and e2: "c @ ''/'' @ p = c' @ ''/'' @ p'"
    by auto
  from e2 have "c @ CHR ''/'' # p = c' @ CHR ''/'' # p'" by simp
  from split [OF assms(2) assms(4) this] r show ?thesis by simp
qed

text \<open>
  C5, as the spec has it, fails: the triples \<open>(a/b, c, d)\<close> and \<open>(a, b/c, d)\<close> are
  distinct and have the same key \<open>a/b/c/d\<close>, so the second is given the inode of the
  first.
\<close>

theorem inode_collision_counterexample:
  "file_of ''a/b'' ''c'' ''d'' \<noteq> file_of ''a'' ''b/c'' ''d''
   \<and> fst (inode (snd (inode (newFilesystem None [] ''h1'') (file_of ''a/b'' ''c'' ''d'')))
             (file_of ''a'' ''b/c'' ''d''))
       = fst (inode (newFilesystem None [] ''h1'') (file_of ''a/b'' ''c'' ''d''))"
  by (simp add: inode_def key_def file_of_def newFilesystem_def Let_def)

text \<open>
  C5, amended. After any queries since the mount was made, the inode that a triple
  \<open>a\<close> is given is the inode that a triple \<open>b\<close> is given after any further queries
  exactly when the keys \<open>repo/commit/path\<close> of \<open>a\<close> and \<open>b\<close> are equal: the inode of a
  triple never changes, and triples with different keys never share an inode. Two
  triples whose repo names and commit ids have no slash have equal keys only when they
  are equal.
\<close>

theorem inode_stable_unique:
  "(fst (inode (inode_seq (snd (inode (inode_seq (newFilesystem shard mounts uuid) before) a)) between) b)
      = fst (inode (inode_seq (newFilesystem shard mounts uuid) before) a))
     = (key b = key a)
   \<and> (CHR ''/'' \<notin> set (Name (Commit.Repo (File.Commit a))) \<longrightarrow>
       CHR ''/'' \<notin> set (ID (File.Commit a)) \<longrightarrow>
       CHR ''/'' \<notin> set (Name (Commit.Repo (File.Commit b))) \<longrightarrow>
       CHR ''/'' \<notin> set (ID (File.Commit b)) \<longrightarrow>
       (key b = key a) = (b = a))"
proof
  define f0 where "f0 = inode_seq (newFilesystem shard mounts uuid) before"
  define f1 where "f1 = snd (inode f0 a)"
  define f2 where "f2 = inode_seq f1 between"
  have wf0: "inodes_wf (inodes f0)"
    unfolding f0_def by (intro inode_seq_wf newFilesystem_wf)
  have wf2: "inodes_wf (inodes f2)"
    unfolding f2_def f1_def by (intro inode_seq_wf inode_wf wf0)
  have "map_of (inodes f1) (key a) = Some (fst (inode f0 a))"
    unfolding f1_def by (rule inode_stored)
  then have "map_of (inodes f2) (key a) = Some (fst (inode f0 a))"
    unfolding f2_def by (rule inode_seq_keeps)
  with wf2 have "(fst (inode f2 b) = fst (inode f0 a)) = (key b = key a)"
    by (rule inode_eq_iff)
  then show "(fst (inode (inode_seq (snd (inode (inode_seq (newFilesystem shard mounts uuid) before) a)) between) b)
      = fst (inode (inode_seq (newFilesystem shard mounts uuid) before) a))
     = (key b = key a)"
    by (simp add: f0_def f1_def f2_def)
next
  show "CHR ''/'' \<notin> set (Name (Commit.Repo (File.Commit a))) \<longrightarrow>
       CHR ''/'' \<notin> set (ID (File.Commit a)) \<longrightarrow>
       CHR ''/'' \<notin> set (Name (Commit.Repo (File.Commit b))) \<longrightarrow>
       CHR ''/'' \<notin> set (ID (File.Commit b)) \<longrightarrow>
       (key b = key a) = (b = a)"
  proof (intro impI iffI)
    assume s: "CHR ''/'' \<notin> set (Name (Commit.Repo (File.Commit a)))"
      "CHR ''/'' \<notin> set (ID (File.Commit a))"
      "CHR ''/'' \<notin> set (Name (Commit.Repo (File.Commit b)))"
      "CHR ''/'' \<notin> set (ID (File.Commit b))"
      and k: "key b = key a"
    from key_inj [OF s(3) s(4) s(1) s(2)] k
    have "Name (Commit.Repo (File.Commit b)) = Name (Commit.Repo (File.Commit a))
      \<and> ID (File.Commit b) = ID (File.Commit a) \<and> Path b = Path a"
      by (simp add: key_def)
    then show "b = a" by simp
  next
    assume "b = a"
    then show "key b = key a" by simp
  qed
qed

text \<open>
  After the root, \<open>R/c1/a.txt\<close> is given the inode 1 and keeps it; \<open>R/c1/b.txt\<close> is
  given the inode 3, after the directory \<open>R/c1\<close>.
\<close>

theorem inode_stable_unique_witness:
  "fst (inode (inode_seq (snd (inode (inode_seq (newFilesystem None [] ''h1'')
                                        [file_of [] [] []]) (file_of ''R'' ''c1'' ''a.txt'')))
                 [file_of ''R'' ''c1'' [], file_of ''R'' ''c1'' ''a.txt''])
          (file_of ''R'' ''c1'' ''a.txt'')) = 1
   \<and> fst (inode (inode_seq (newFilesystem None [] ''h1'') [file_of [] [] []])
             (file_of ''R'' ''c1'' ''a.txt'')) = 1
   \<and> fst (inode (inode_seq (snd (inode (inode_seq (newFilesystem None [] ''h1'')
                                        [file_of [] [] []]) (file_of ''R'' ''c1'' ''a.txt'')))
                 [file_of ''R'' ''c1'' [], file_of ''R'' ''c1'' ''a.txt''])
          (file_of ''R'' ''c1'' ''b.txt'')) = 3
   \<and> CHR ''/'' \<notin> set (Name (Commit.Repo (File.Commit (file_of ''R'' ''c1'' ''a.txt''))))
   \<and> CHR ''/'' \<notin> set (ID (File.Commit (file_of ''R'' ''c1'' ''a.txt'')))
   \<and> CHR ''/'' \<notin> set (Name (Commit.Repo (File.Commit (file_of ''R'' ''c1'' ''b.txt''))))
   \<and> CHR ''/'' \<notin> set (ID (File.Commit (file_of ''R'' ''c1'' ''b.txt'')))
   \<and> key (file_of ''R'' ''c1'' ''b.txt'') \<noteq> key (file_of ''R'' ''c1'' ''a.txt'')
   \<and> file_of ''R'' ''c1'' ''b.txt'' \<noteq> file_of ''R'' ''c1'' ''a.txt''"
  using inode_stable_unique [of None "[]" "''h1''" "[file_of [] [] []]"
          "file_of ''R'' ''c1'' ''a.txt''" "[file_of ''R'' ''c1'' [], file_of ''R'' ''c1'' ''a.txt'']"
          "file_of ''R'' ''c1'' ''a.txt''"]
    inode_stable_unique [of None "[]" "''h1''" "[file_of [] [] []]"
          "file_of ''R'' ''c1'' ''a.txt''" "[file_of ''R'' ''c1'' [], file_of ''R'' ''c1'' ''a.txt'']"
          "file_of ''R'' ''c1'' ''b.txt''"]
  by (simp add: inode_def key_def file_of_def newFilesystem_def Let_def)

end
